theory Spec2Isabelle
  imports Main "HOL-Library.Word"
begin

section \<open>Adreno IOMMU pagetable-switch command generation (adreno\_iommu.c)\<close>

text \<open>
  The driver builds PM4 command streams by storing 32-bit words through a cursor
  \<^verbatim>\<open>unsigned int *cmds\<close> and returning \<^verbatim>\<open>cmds - start\<close>, the number of
  words stored. The embedding keeps that shape: a generator takes the buffer and the
  cursor (a word index into the buffer) and returns the count together with the
  updated buffer. Names are those of the source, without the leading underscores of
  \<^verbatim>\<open>_adreno_iommu_add_idle_cmds\<close>, \<^verbatim>\<open>_adreno_iommu_add_idle_indirect_cmds\<close>,
  \<^verbatim>\<open>_adreno_iommu_set_pt_v2_a6xx\<close>, \<^verbatim>\<open>__add_curr_ctxt_cmds\<close>, \<^verbatim>\<open>_set_ctxt_gpu\<close>
  and \<^verbatim>\<open>_set_pagetable_gpu\<close>. The flag \<^verbatim>\<open>int set\<close> of \<^verbatim>\<open>adreno_iommu_set_apriv\<close>,
  which the callers give as 1 or 0, is a boolean.
\<close>

subsection \<open>Machine words\<close>

type_synonym u32 = "32 word"
type_synonym u64 = "64 word"

definition lower_32_bits :: "u64 \<Rightarrow> u32" where
  "lower_32_bits n = ucast n"

definition upper_32_bits :: "u64 \<Rightarrow> u32" where
  "upper_32_bits n = ucast (drop_bit 32 n)"

subsection \<open>The command buffer\<close>

text \<open>
  A buffer is an array of fixed capacity. A store inside the array updates the word; a
  store past its end is undefined behaviour in C, which the model records in the
  flag \<open>overrun\<close> instead of performing it.
\<close>

record cmdbuf =
  buf_words :: "u32 list"
  overrun :: bool

definition store :: "nat \<Rightarrow> u32 \<Rightarrow> cmdbuf \<Rightarrow> cmdbuf" where
  "store p w b =
     (if p < length (buf_words b) then b\<lparr>buf_words := (buf_words b)[p := w]\<rparr>
      else b\<lparr>overrun := True\<rparr>)"

text \<open>Storing a sequence of words at consecutive positions, first word first.\<close>

primrec store_words :: "nat \<Rightarrow> u32 list \<Rightarrow> cmdbuf \<Rightarrow> cmdbuf" where
  "store_words p [] b = b"
| "store_words p (w # ws) b = store_words (Suc p) ws (store p w b)"

definition emit :: "u32 list \<Rightarrow> nat \<Rightarrow> cmdbuf \<Rightarrow> nat \<times> cmdbuf" where
  "emit ws cmds b = (length ws, store_words cmds ws b)"

text \<open>The words a reader of the buffer finds at \<open>n\<close> positions from \<open>p\<close> on.\<close>

definition stream :: "nat \<Rightarrow> nat \<Rightarrow> cmdbuf \<Rightarrow> u32 list" where
  "stream p n b = take n (drop p (buf_words b))"

subsection \<open>Device, ring buffer and context structures\<close>

datatype adreno_feature = ADRENO_APRIV

datatype adreno_device_flag = ADRENO_DEVICE_FAULT

datatype adreno_regs = ADRENO_REG_CP_CNTL

datatype kgsl_mmutype = KGSL_MMU_TYPE_IOMMU | KGSL_MMU_TYPE_NONE

datatype pm4_opcode =
  CP_NOP | CP_WAIT_REG_MEM | CP_MEM_WRITE | CP_INDIRECT_BUFFER_PFE
  | CP_EVENT_WRITE | CP_SMMU_TABLE_UPDATE

text \<open>A \<^verbatim>\<open>struct kgsl_pagetable *\<close> is an opaque handle, compared by address.\<close>

type_synonym kgsl_pagetable_ptr = nat

record kgsl_memdesc =
  gpuaddr :: u64

record kgsl_iommu_context =
  cb_num :: u32

record kgsl_iommu =
  setstate :: kgsl_memdesc
  ctx_user :: kgsl_iommu_context

record kgsl_mmu =
  mmutype :: kgsl_mmutype
  defaultpagetable :: kgsl_pagetable_ptr

text \<open>
  \<^verbatim>\<open>struct kgsl_device\<close> is embedded in \<^verbatim>\<open>struct adreno_device\<close>, and the macros
  \<^verbatim>\<open>KGSL_DEVICE\<close> and \<^verbatim>\<open>ADRENO_DEVICE\<close> convert between pointers to the same
  object; one record stands for both. \<open>memstore_global_current_context\<close> is the
  address \<^verbatim>\<open>MEMSTORE_ID_GPU_ADDR(device, KGSL_MEMSTORE_GLOBAL, current_context)\<close>.
\<close>

record adreno_device =
  mmu :: kgsl_mmu
  iommu :: kgsl_iommu
  memstore_global_current_context :: u64
  ft_mask :: "adreno_feature set"
  perfcounter :: bool
  priv :: "adreno_device_flag set"

record kgsl_process_private =
  pagetable :: kgsl_pagetable_ptr

record kgsl_context =
  ctxt_id :: u32
  proc_priv :: kgsl_process_private

record adreno_context =
  base :: kgsl_context

text \<open>
  \<open>rb_device\<close> is \<^verbatim>\<open>ADRENO_RB_DEVICE(rb)\<close>; \<open>memstore_rb_current_context\<close> is the
  address \<^verbatim>\<open>MEMSTORE_RB_GPU_ADDR(device, rb, current_context)\<close>. A null
  \<^verbatim>\<open>drawctxt_active\<close> is \<open>None\<close>.
\<close>

record adreno_ringbuffer =
  rb_device :: adreno_device
  drawctxt_active :: "adreno_context option"
  pagetable_desc :: kgsl_memdesc
  memstore_rb_current_context :: u64

definition ADRENO_RB_DEVICE :: "adreno_ringbuffer \<Rightarrow> adreno_device" where
  "ADRENO_RB_DEVICE rb = rb_device rb"

definition KGSL_DEVICE :: "adreno_device \<Rightarrow> adreno_device" where
  "KGSL_DEVICE adreno_dev = adreno_dev"

definition ADRENO_DEVICE :: "adreno_device \<Rightarrow> adreno_device" where
  "ADRENO_DEVICE device = device"

definition KGSL_IOMMU_PRIV :: "adreno_device \<Rightarrow> kgsl_iommu" where
  "KGSL_IOMMU_PRIV device = iommu device"

definition ADRENO_FEATURE :: "adreno_device \<Rightarrow> adreno_feature \<Rightarrow> bool" where
  "ADRENO_FEATURE adreno_dev f = (f \<in> ft_mask adreno_dev)"

definition test_bit :: "adreno_device_flag \<Rightarrow> adreno_device_flag set \<Rightarrow> bool" where
  "test_bit nr flags = (nr \<in> flags)"

definition kgsl_mmu_get_mmutype :: "adreno_device \<Rightarrow> kgsl_mmutype" where
  "kgsl_mmu_get_mmutype device = mmutype (mmu device)"

subsection \<open>What the included headers and the kernel provide\<close>

text \<open>
  The packet encoders, register numbers and constants come from headers that are not
  part of this source file (adreno\_pm4types.h, a6xx\_reg.h, adreno.h, the kgsl headers),
  and the ring-buffer transport and the allocator from the rest of the kernel. They are
  parameters of the model, collected in one record:
  \<^item> \<open>wait_for_idle_words\<close>, \<open>wait_for_me_words\<close>, \<open>identifier_words\<close> and
    \<open>invalidate_state_words\<close> are the words that \<^verbatim>\<open>cp_wait_for_idle\<close>,
    \<^verbatim>\<open>cp_wait_for_me\<close>, \<^verbatim>\<open>cp_identifier\<close> and \<^verbatim>\<open>cp_invalidate_state\<close> store;
  \<^item> \<open>cp_register\<close>, \<open>cp_packet\<close>, \<open>cp_mem_packet\<close>, \<open>cp_type4_packet\<close> and
    \<open>cp_type7_packet\<close> compute one header word each;
  \<^item> \<open>kmalloc_ok\<close> says whether \<^verbatim>\<open>kmalloc(PAGE_SIZE, GFP_KERNEL)\<close> succeeds,
    \<open>uninit\<close> gives the contents of memory that was never written, and
    \<open>issue_result\<close> is the value \<^verbatim>\<open>adreno_ringbuffer_issue_internal_cmds\<close> returns
    (it may depend on everything submitted before).
\<close>

record submission =
  sub_flags :: u32
  sub_link :: cmdbuf
  sub_count :: nat

text \<open>
  What a call leaves behind outside its own locals: the command sets handed to the
  ring-buffer transport, oldest first, and the diagnostics logged by \<^verbatim>\<open>WARN\<close>.
\<close>

record klog =
  submitted :: "submission list"
  warnings :: "string list"

record env =
  wait_for_idle_words :: "adreno_device \<Rightarrow> u32 list"
  wait_for_me_words :: "adreno_device \<Rightarrow> u32 list"
  identifier_words :: "adreno_device \<Rightarrow> u32 \<Rightarrow> u32 list"
  invalidate_state_words :: "adreno_device \<Rightarrow> u32 list"
  cp_register :: "adreno_device \<Rightarrow> u32 \<Rightarrow> nat \<Rightarrow> u32"
  cp_packet :: "adreno_device \<Rightarrow> pm4_opcode \<Rightarrow> nat \<Rightarrow> u32"
  cp_mem_packet :: "adreno_device \<Rightarrow> pm4_opcode \<Rightarrow> nat \<Rightarrow> nat \<Rightarrow> u32"
  cp_type4_packet :: "u32 \<Rightarrow> nat \<Rightarrow> u32"
  cp_type7_packet :: "pm4_opcode \<Rightarrow> nat \<Rightarrow> u32"
  adreno_getreg :: "adreno_device \<Rightarrow> adreno_regs \<Rightarrow> u32"
  A6XX_RBBM_PERFCTR_SRAM_INIT_CMD :: u32
  A6XX_RBBM_PERFCTR_SRAM_INIT_STATUS :: u32
  CONTEXT_TO_MEM_IDENTIFIER :: u32
  KGSL_CMD_FLAGS_PMODE :: u32
  KGSL_IOMMU_SETSTATE_NOP_OFFSET :: u64
  PT_INFO_OFFSET_ttbr0 :: u64
  PAGE_SIZE :: nat
  kgsl_mmu_pagetable_get_ttbr0 :: "kgsl_pagetable_ptr \<Rightarrow> u64"
  kgsl_mmu_pagetable_get_contextidr :: "kgsl_pagetable_ptr \<Rightarrow> u32"
  kmalloc_ok :: bool
  uninit :: "nat \<Rightarrow> u32"
  issue_result :: "klog \<Rightarrow> adreno_ringbuffer \<Rightarrow> submission \<Rightarrow> int"

text \<open>
  Modelled from the spec: \<^verbatim>\<open>cp_wait_for_idle\<close> and \<^verbatim>\<open>cp_wait_for_me\<close> of
  adreno\_pm4types.h are missing. By section 4.1 they are pure functions of the
  feature-variant context that append a fixed word sequence and return its length.
\<close>

definition cp_wait_for_idle :: "env \<Rightarrow> adreno_device \<Rightarrow> nat \<Rightarrow> cmdbuf \<Rightarrow> nat \<times> cmdbuf" where
  "cp_wait_for_idle e adreno_dev cmds b = emit (wait_for_idle_words e adreno_dev) cmds b"

definition cp_wait_for_me :: "env \<Rightarrow> adreno_device \<Rightarrow> nat \<Rightarrow> cmdbuf \<Rightarrow> nat \<times> cmdbuf" where
  "cp_wait_for_me e adreno_dev cmds b = emit (wait_for_me_words e adreno_dev) cmds b"

text \<open>
  Modelled from the spec: \<^verbatim>\<open>cp_identifier\<close> and \<^verbatim>\<open>cp_invalidate_state\<close> of
  adreno\_pm4types.h are missing. By sections 4.5 and 4.6 each appends one command (an
  identifier/marker command, an invalidate-all-base-pointers command) and returns its
  length.
\<close>

definition cp_identifier :: "env \<Rightarrow> adreno_device \<Rightarrow> nat \<Rightarrow> u32 \<Rightarrow> cmdbuf \<Rightarrow> nat \<times> cmdbuf" where
  "cp_identifier e adreno_dev cmds ident b = emit (identifier_words e adreno_dev ident) cmds b"

definition cp_invalidate_state :: "env \<Rightarrow> adreno_device \<Rightarrow> nat \<Rightarrow> cmdbuf \<Rightarrow> nat \<times> cmdbuf" where
  "cp_invalidate_state e adreno_dev cmds b = emit (invalidate_state_words e adreno_dev) cmds b"

text \<open>
  Modelled from the spec: \<^verbatim>\<open>cp_gpuaddr\<close> of adreno\_pm4types.h is missing. By
  sections 3 and 6 a GPU address is written as its low half followed by its high half,
  and the number of words written is returned.
\<close>

definition gpuaddr_words :: "u64 \<Rightarrow> u32 list" where
  "gpuaddr_words a = [lower_32_bits a, upper_32_bits a]"

definition cp_gpuaddr :: "env \<Rightarrow> adreno_device \<Rightarrow> nat \<Rightarrow> u64 \<Rightarrow> cmdbuf \<Rightarrow> nat \<times> cmdbuf" where
  "cp_gpuaddr e adreno_dev cmds a b = emit (gpuaddr_words a) cmds b"

subsection \<open>The generators\<close>

definition adreno_iommu_add_idle_cmds :: "env \<Rightarrow> adreno_device \<Rightarrow> nat \<Rightarrow> cmdbuf \<Rightarrow> nat \<times> cmdbuf" where
  "adreno_iommu_add_idle_cmds e adreno_dev start b0 =
     (let cmds = start;
          (n, b1) = cp_wait_for_idle e adreno_dev cmds b0;
          cmds = cmds + n
      in (cmds - start, b1))"

definition adreno_iommu_set_apriv ::
  "env \<Rightarrow> adreno_device \<Rightarrow> nat \<Rightarrow> bool \<Rightarrow> cmdbuf \<Rightarrow> nat \<times> cmdbuf" where
  "adreno_iommu_set_apriv e adreno_dev cmds_orig set_apriv b0 =
     (if ADRENO_FEATURE adreno_dev ADRENO_APRIV then (0, b0)
      else
        let cmds = cmds_orig;
            (n, b1) = cp_wait_for_idle e adreno_dev cmds b0;
            cmds = cmds + n;
            (n, b2) = cp_wait_for_me e adreno_dev cmds b1;
            cmds = cmds + n;
            b3 = store cmds (cp_register e adreno_dev
                   (adreno_getreg e adreno_dev ADRENO_REG_CP_CNTL) 1) b2;
            cmds = cmds + 1;
            b4 = (if set_apriv then store cmds 1 b3 else store cmds 0 b3);
            cmds = cmds + 1
        in (cmds - cmds_orig, b4))"

definition adreno_iommu_add_idle_indirect_cmds ::
  "env \<Rightarrow> adreno_device \<Rightarrow> nat \<Rightarrow> u64 \<Rightarrow> cmdbuf \<Rightarrow> nat \<times> cmdbuf" where
  "adreno_iommu_add_idle_indirect_cmds e adreno_dev start nop_gpuaddr b0 =
     (let cmds = start;
          (n, b1) = cp_wait_for_me e adreno_dev cmds b0;
          cmds = cmds + n;
          b2 = store cmds (cp_mem_packet e adreno_dev CP_INDIRECT_BUFFER_PFE 2 1) b1;
          cmds = cmds + 1;
          (n, b3) = cp_gpuaddr e adreno_dev cmds nop_gpuaddr b2;
          cmds = cmds + n;
          b4 = store cmds 2 b3;
          cmds = cmds + 1;
          (n, b5) = cp_wait_for_idle e adreno_dev cmds b4;
          cmds = cmds + n
      in (cmds - start, b5))"

definition adreno_iommu_set_pt_v2_a6xx ::
  "env \<Rightarrow> adreno_device \<Rightarrow> nat \<Rightarrow> u64 \<Rightarrow> u32 \<Rightarrow> adreno_ringbuffer \<Rightarrow> u32 \<Rightarrow> cmdbuf
     \<Rightarrow> nat \<times> cmdbuf" where
  "adreno_iommu_set_pt_v2_a6xx e device cmds_orig ttbr0 contextidr rb cb b0 =
     (let adreno_dev = ADRENO_DEVICE device;
          cmds = cmds_orig;
          (n, b1) = adreno_iommu_add_idle_cmds e adreno_dev cmds b0;
          cmds = cmds + n;
          (n, b2) = cp_wait_for_me e adreno_dev cmds b1;
          cmds = cmds + n;
          (cmds, b4) =
            (if \<not> perfcounter adreno_dev then
               let b3 = store cmds (cp_type4_packet e (A6XX_RBBM_PERFCTR_SRAM_INIT_CMD e) 1) b2;
                   cmds = cmds + 1;
                   b4 = store cmds 1 b3;
                   cmds = cmds + 1
               in (cmds, b4)
             else (cmds, b2));
          b5 = store cmds (cp_packet e adreno_dev CP_SMMU_TABLE_UPDATE 4) b4;
          cmds = cmds + 1;
          b6 = store cmds (lower_32_bits ttbr0) b5;
          cmds = cmds + 1;
          b7 = store cmds (upper_32_bits ttbr0) b6;
          cmds = cmds + 1;
          b8 = store cmds contextidr b7;
          cmds = cmds + 1;
          b9 = store cmds cb b8;
          cmds = cmds + 1;
          b10 = store cmds (cp_mem_packet e adreno_dev CP_MEM_WRITE 4 1) b9;
          cmds = cmds + 1;
          (n, b11) = cp_gpuaddr e adreno_dev cmds
                       (gpuaddr (pagetable_desc rb) + PT_INFO_OFFSET_ttbr0 e) b10;
          cmds = cmds + n;
          b12 = store cmds (lower_32_bits ttbr0) b11;
          cmds = cmds + 1;
          b13 = store cmds (upper_32_bits ttbr0) b12;
          cmds = cmds + 1;
          b14 = store cmds contextidr b13;
          cmds = cmds + 1;
          (n, b15) = cp_wait_for_me e adreno_dev cmds b14;
          cmds = cmds + n;
          (n, b16) = adreno_iommu_add_idle_cmds e adreno_dev cmds b15;
          cmds = cmds + n;
          (cmds, b23) =
            (if \<not> perfcounter adreno_dev then
               let b17 = store cmds (cp_type7_packet e CP_WAIT_REG_MEM 6) b16;
                   cmds = cmds + 1;
                   b18 = store cmds 3 b17;
                   cmds = cmds + 1;
                   b19 = store cmds (A6XX_RBBM_PERFCTR_SRAM_INIT_STATUS e) b18;
                   cmds = cmds + 1;
                   b20 = store cmds 0 b19;
                   cmds = cmds + 1;
                   b21 = store cmds 1 b20;
                   cmds = cmds + 1;
                   b22 = store cmds 1 b21;
                   cmds = cmds + 1;
                   b23 = store cmds 0 b22;
                   cmds = cmds + 1
               in (cmds, b23)
             else (cmds, b16))
      in (cmds - cmds_orig, b23))"

definition adreno_iommu_set_pt_generate_cmds ::
  "env \<Rightarrow> adreno_ringbuffer \<Rightarrow> nat \<Rightarrow> kgsl_pagetable_ptr \<Rightarrow> cmdbuf \<Rightarrow> nat \<times> cmdbuf" where
  "adreno_iommu_set_pt_generate_cmds e rb cmds_orig pt b0 =
     (let adreno_dev = ADRENO_RB_DEVICE rb;
          device = KGSL_DEVICE adreno_dev;
          iommu = KGSL_IOMMU_PRIV device;
          ctx = ctx_user iommu;
          cmds = cmds_orig;
          ttbr0 = kgsl_mmu_pagetable_get_ttbr0 e pt;
          contextidr = kgsl_mmu_pagetable_get_contextidr e pt;
          (n, b1) = adreno_iommu_set_apriv e adreno_dev cmds True b0;
          cmds = cmds + n;
          (n, b2) = adreno_iommu_add_idle_indirect_cmds e adreno_dev cmds
                      (gpuaddr (setstate iommu) + KGSL_IOMMU_SETSTATE_NOP_OFFSET e) b1;
          cmds = cmds + n;
          (n, b3) = adreno_iommu_set_pt_v2_a6xx e device cmds ttbr0 contextidr rb
                      (cb_num ctx) b2;
          cmds = cmds + n;
          (n, b4) = cp_invalidate_state e adreno_dev cmds b3;
          cmds = cmds + n;
          (n, b5) = adreno_iommu_set_apriv e adreno_dev cmds False b4;
          cmds = cmds + n
      in (cmds - cmds_orig, b5))"

definition add_curr_ctxt_cmds ::
  "env \<Rightarrow> adreno_ringbuffer \<Rightarrow> nat \<Rightarrow> adreno_context option \<Rightarrow> cmdbuf \<Rightarrow> nat \<times> cmdbuf" where
  "add_curr_ctxt_cmds e rb cmds_orig drawctxt b0 =
     (let adreno_dev = ADRENO_RB_DEVICE rb;
          device = KGSL_DEVICE adreno_dev;
          cmds = cmds_orig;
          (n, b1) = cp_identifier e adreno_dev cmds (CONTEXT_TO_MEM_IDENTIFIER e) b0;
          cmds = cmds + n;
          b2 = store cmds (cp_mem_packet e adreno_dev CP_MEM_WRITE 2 1) b1;
          cmds = cmds + 1;
          (n, b3) = cp_gpuaddr e adreno_dev cmds (memstore_rb_current_context rb) b2;
          cmds = cmds + n;
          b4 = store cmds (case drawctxt of Some c \<Rightarrow> ctxt_id (base c) | None \<Rightarrow> 0) b3;
          cmds = cmds + 1;
          b5 = store cmds (cp_mem_packet e adreno_dev CP_MEM_WRITE 2 1) b4;
          cmds = cmds + 1;
          (n, b6) = cp_gpuaddr e adreno_dev cmds (memstore_global_current_context device) b5;
          cmds = cmds + n;
          b7 = store cmds (case drawctxt of Some c \<Rightarrow> ctxt_id (base c) | None \<Rightarrow> 0) b6;
          cmds = cmds + 1;
          b8 = store cmds (cp_packet e adreno_dev CP_EVENT_WRITE 1) b7;
          cmds = cmds + 1;
          b9 = store cmds 0x31 b8;
          cmds = cmds + 1
      in (cmds - cmds_orig, b9))"

subsection \<open>Submission\<close>

text \<open>
  Memory that was allocated and not yet written holds whatever \<open>uninit\<close> says. Counts
  and pointer differences are natural numbers: every count here is the length of a
  command sequence held in memory, far below the range of \<^verbatim>\<open>unsigned int\<close>.
\<close>

definition sizeof_unsigned_int :: nat where
  "sizeof_unsigned_int = 4"

definition ENOMEM :: int where
  "ENOMEM = 12"

definition fresh_words :: "env \<Rightarrow> nat \<Rightarrow> cmdbuf" where
  "fresh_words e n = \<lparr>buf_words = map (uninit e) [0..<n], overrun = False\<rparr>"

definition kmalloc :: "env \<Rightarrow> nat \<Rightarrow> cmdbuf option" where
  "kmalloc e size_bytes =
     (if kmalloc_ok e then Some (fresh_words e (size_bytes div sizeof_unsigned_int))
      else None)"

definition WARN :: "bool \<Rightarrow> string \<Rightarrow> klog \<Rightarrow> klog" where
  "WARN condition msg k = (if condition then k\<lparr>warnings := warnings k @ [msg]\<rparr> else k)"

text \<open>
  Modelled from the spec: \<^verbatim>\<open>adreno_ringbuffer_issue_internal_cmds\<close> of
  adreno\_ringbuffer.c is missing. By section 6 the transport takes the ring buffer,
  the flags, the buffer and the word count and returns a result; the model records
  the submission and returns what the environment answers.
\<close>

definition adreno_ringbuffer_issue_internal_cmds ::
  "env \<Rightarrow> adreno_ringbuffer \<Rightarrow> u32 \<Rightarrow> cmdbuf \<Rightarrow> nat \<Rightarrow> klog \<Rightarrow> int \<times> klog" where
  "adreno_ringbuffer_issue_internal_cmds e rb flags link count k =
     (let s = \<lparr>sub_flags = flags, sub_link = link, sub_count = count\<rparr>
      in (issue_result e k rb s, k\<lparr>submitted := submitted k @ [s]\<rparr>))"

definition set_ctxt_gpu ::
  "env \<Rightarrow> adreno_ringbuffer \<Rightarrow> adreno_context option \<Rightarrow> klog \<Rightarrow> int \<times> klog" where
  "set_ctxt_gpu e rb drawctxt k =
     (let link = fresh_words e 15;
          cmds = 0;
          (n, link) = add_curr_ctxt_cmds e rb cmds drawctxt link;
          cmds = cmds + n
      in adreno_ringbuffer_issue_internal_cmds e rb 0 link (cmds - 0) k)"

text \<open>\<^verbatim>\<open>kfree\<close> releases the buffer; the buffer is local to the call, so nothing remains of it.\<close>

definition set_pagetable_gpu ::
  "env \<Rightarrow> adreno_ringbuffer \<Rightarrow> kgsl_pagetable_ptr \<Rightarrow> klog \<Rightarrow> int \<times> klog" where
  "set_pagetable_gpu e rb new_pt k =
     (let adreno_dev = ADRENO_RB_DEVICE rb
      in case kmalloc e (PAGE_SIZE e) of
           None \<Rightarrow> (- ENOMEM, k)
         | Some link \<Rightarrow>
             if test_bit ADRENO_DEVICE_FAULT (priv adreno_dev) then (0, k)
             else
               let (count, link) = adreno_iommu_set_pt_generate_cmds e rb 0 new_pt link;
                   k = WARN (count > PAGE_SIZE e div sizeof_unsigned_int)
                         ''Temp command buffer overflow'' k
               in adreno_ringbuffer_issue_internal_cmds e rb (KGSL_CMD_FLAGS_PMODE e)
                    link count k)"

definition adreno_iommu_set_pt_ctx ::
  "env \<Rightarrow> adreno_ringbuffer \<Rightarrow> kgsl_pagetable_ptr \<Rightarrow> adreno_context option \<Rightarrow> klog
     \<Rightarrow> int \<times> klog" where
  "adreno_iommu_set_pt_ctx e rb new_pt drawctxt k =
     (let adreno_dev = ADRENO_RB_DEVICE rb;
          device = KGSL_DEVICE adreno_dev;
          cur_pt = defaultpagetable (mmu device);
          result = 0
      in if kgsl_mmu_get_mmutype device \<noteq> KGSL_MMU_TYPE_NONE then
           let cur_pt = (case drawctxt_active rb of
                           Some active \<Rightarrow> pagetable (proc_priv (base active))
                         | None \<Rightarrow> cur_pt);
               (result, k) = (if new_pt \<noteq> cur_pt then set_pagetable_gpu e rb new_pt k
                              else (result, k))
           in if result \<noteq> 0 then (result, k) else set_ctxt_gpu e rb drawctxt k
         else set_ctxt_gpu e rb drawctxt k)"

subsection \<open>The word sequences of the specification\<close>

text \<open>
  Sections 4.2 to 4.6 of the specification describe each generator by the words it
  appends. These definitions follow that description; the properties below compare
  them with what the generators store.
\<close>

definition apriv_words :: "env \<Rightarrow> adreno_device \<Rightarrow> bool \<Rightarrow> u32 list" where
  "apriv_words e adreno_dev raise =
     (if ADRENO_FEATURE adreno_dev ADRENO_APRIV then []
      else wait_for_idle_words e adreno_dev @ wait_for_me_words e adreno_dev @
           [cp_register e adreno_dev (adreno_getreg e adreno_dev ADRENO_REG_CP_CNTL) 1,
            if raise then 1 else 0])"

definition prefetch_stall_words :: "env \<Rightarrow> adreno_device \<Rightarrow> u64 \<Rightarrow> u32 list" where
  "prefetch_stall_words e adreno_dev nop_gpuaddr =
     wait_for_me_words e adreno_dev @
     [cp_mem_packet e adreno_dev CP_INDIRECT_BUFFER_PFE 2 1] @ gpuaddr_words nop_gpuaddr @ [2] @
     wait_for_idle_words e adreno_dev"

definition pagetable_switch_words ::
  "env \<Rightarrow> adreno_device \<Rightarrow> u64 \<Rightarrow> u32 \<Rightarrow> adreno_ringbuffer \<Rightarrow> u32 \<Rightarrow> u32 list" where
  "pagetable_switch_words e adreno_dev ttbr0 contextidr rb cb =
     wait_for_idle_words e adreno_dev @ wait_for_me_words e adreno_dev @
     (if perfcounter adreno_dev then []
      else [cp_type4_packet e (A6XX_RBBM_PERFCTR_SRAM_INIT_CMD e) 1, 1]) @
     [cp_packet e adreno_dev CP_SMMU_TABLE_UPDATE 4,
      lower_32_bits ttbr0, upper_32_bits ttbr0, contextidr, cb] @
     [cp_mem_packet e adreno_dev CP_MEM_WRITE 4 1] @
     gpuaddr_words (gpuaddr (pagetable_desc rb) + PT_INFO_OFFSET_ttbr0 e) @
     [lower_32_bits ttbr0, upper_32_bits ttbr0, contextidr] @
     wait_for_me_words e adreno_dev @ wait_for_idle_words e adreno_dev @
     (if perfcounter adreno_dev then []
      else [cp_type7_packet e CP_WAIT_REG_MEM 6, 3, A6XX_RBBM_PERFCTR_SRAM_INIT_STATUS e,
            0, 1, 1, 0])"

definition switch_sequence_words ::
  "env \<Rightarrow> adreno_ringbuffer \<Rightarrow> kgsl_pagetable_ptr \<Rightarrow> u32 list" where
  "switch_sequence_words e rb pt =
     apriv_words e (rb_device rb) True @
     prefetch_stall_words e (rb_device rb)
       (gpuaddr (setstate (iommu (rb_device rb))) + KGSL_IOMMU_SETSTATE_NOP_OFFSET e) @
     pagetable_switch_words e (rb_device rb) (kgsl_mmu_pagetable_get_ttbr0 e pt)
       (kgsl_mmu_pagetable_get_contextidr e pt) rb (cb_num (ctx_user (iommu (rb_device rb)))) @
     invalidate_state_words e (rb_device rb) @
     apriv_words e (rb_device rb) False"

definition context_record_words ::
  "env \<Rightarrow> adreno_ringbuffer \<Rightarrow> u32 \<Rightarrow> u32 list" where
  "context_record_words e rb recorded_id =
     identifier_words e (rb_device rb) (CONTEXT_TO_MEM_IDENTIFIER e) @
     [cp_mem_packet e (rb_device rb) CP_MEM_WRITE 2 1] @
     gpuaddr_words (memstore_rb_current_context rb) @ [recorded_id] @
     [cp_mem_packet e (rb_device rb) CP_MEM_WRITE 2 1] @
     gpuaddr_words (memstore_global_current_context (rb_device rb)) @ [recorded_id] @
     [cp_packet e (rb_device rb) CP_EVENT_WRITE 1, 0x31]"

text \<open>
  The pagetable that is active for a ring buffer: the one of its active draw context,
  the default pagetable when it has none.
\<close>

definition active_pagetable :: "adreno_ringbuffer \<Rightarrow> kgsl_pagetable_ptr" where
  "active_pagetable rb =
     (case drawctxt_active rb of
        Some active \<Rightarrow> pagetable (proc_priv (base active))
      | None \<Rightarrow> defaultpagetable (mmu (rb_device rb)))"

text \<open>
  The first half of the entry point \<^verbatim>\<open>adreno_iommu_set_pt_ctx\<close>: the pagetable switch,
  taken when an MMU is attached and the requested pagetable is not the active one.
\<close>

definition pagetable_step ::
  "env \<Rightarrow> adreno_ringbuffer \<Rightarrow> kgsl_pagetable_ptr \<Rightarrow> klog \<Rightarrow> int \<times> klog" where
  "pagetable_step e rb new_pt k =
     (if kgsl_mmu_get_mmutype (rb_device rb) \<noteq> KGSL_MMU_TYPE_NONE \<and>
         new_pt \<noteq> active_pagetable rb
      then set_pagetable_gpu e rb new_pt k else (0, k))"

text \<open>The identifier a context record stores: the context's, 0 for a null context.\<close>

definition recorded_id :: "adreno_context option \<Rightarrow> u32" where
  "recorded_id drawctxt = (case drawctxt of Some c \<Rightarrow> ctxt_id (base c) | None \<Rightarrow> 0)"

text \<open>
  The two command sets a switch request can hand to the transport: the context record,
  built in a 15-word array and submitted with no flags, and the switch sequence, built
  in one page and submitted in protected mode.
\<close>

definition context_record_submission ::
  "env \<Rightarrow> adreno_ringbuffer \<Rightarrow> adreno_context option \<Rightarrow> submission" where
  "context_record_submission e rb drawctxt =
     \<lparr>sub_flags = 0,
      sub_link = store_words 0 (context_record_words e rb (recorded_id drawctxt))
                   (fresh_words e 15),
      sub_count = length (context_record_words e rb (recorded_id drawctxt))\<rparr>"

definition switch_submission ::
  "env \<Rightarrow> adreno_ringbuffer \<Rightarrow> kgsl_pagetable_ptr \<Rightarrow> submission" where
  "switch_submission e rb pt =
     \<lparr>sub_flags = KGSL_CMD_FLAGS_PMODE e,
      sub_link = store_words 0 (switch_sequence_words e rb pt)
                   (fresh_words e (PAGE_SIZE e div sizeof_unsigned_int)),
      sub_count = length (switch_sequence_words e rb pt)\<rparr>"

definition submit :: "env \<Rightarrow> adreno_ringbuffer \<Rightarrow> submission \<Rightarrow> klog \<Rightarrow> int \<times> klog" where
  "submit e rb s k = (issue_result e k rb s, k\<lparr>submitted := submitted k @ [s]\<rparr>)"

subsection \<open>A concrete configuration\<close>

text \<open>
  The scenario of section 8: performance counters active, no native privilege control,
  ring buffer on the default pagetable 1, a context with identifier 7 on pagetable 2.
  The encoders are stand-ins that keep the words apart.
\<close>

definition opcode_number :: "pm4_opcode \<Rightarrow> u32" where
  "opcode_number op =
     (case op of CP_NOP \<Rightarrow> 0x10 | CP_WAIT_REG_MEM \<Rightarrow> 0x3c | CP_MEM_WRITE \<Rightarrow> 0x3d
      | CP_INDIRECT_BUFFER_PFE \<Rightarrow> 0x3f | CP_EVENT_WRITE \<Rightarrow> 0x46
      | CP_SMMU_TABLE_UPDATE \<Rightarrow> 0x53)"

definition scenario_env :: env where
  "scenario_env =
     \<lparr>wait_for_idle_words = (\<lambda>_. [0x26]),
      wait_for_me_words = (\<lambda>_. [0x13]),
      identifier_words = (\<lambda>_ ident. [ident]),
      invalidate_state_words = (\<lambda>_. [0x3b]),
      cp_register = (\<lambda>_ reg _. reg),
      cp_packet = (\<lambda>_ op _. opcode_number op),
      cp_mem_packet = (\<lambda>_ op _ _. opcode_number op),
      cp_type4_packet = (\<lambda>reg _. reg),
      cp_type7_packet = (\<lambda>op _. opcode_number op),
      adreno_getreg = (\<lambda>_ _. 0x800),
      A6XX_RBBM_PERFCTR_SRAM_INIT_CMD = 0x8e50,
      A6XX_RBBM_PERFCTR_SRAM_INIT_STATUS = 0x8e53,
      CONTEXT_TO_MEM_IDENTIFIER = 0x2eadbeef,
      KGSL_CMD_FLAGS_PMODE = 1,
      KGSL_IOMMU_SETSTATE_NOP_OFFSET = 1024,
      PT_INFO_OFFSET_ttbr0 = 0,
      PAGE_SIZE = 4096,
      kgsl_mmu_pagetable_get_ttbr0 = (\<lambda>pt. of_nat pt),
      kgsl_mmu_pagetable_get_contextidr = (\<lambda>pt. of_nat pt),
      kmalloc_ok = True,
      uninit = (\<lambda>_. 0),
      issue_result = (\<lambda>_ _ _. 0)\<rparr>"

definition scenario_dev :: adreno_device where
  "scenario_dev =
     \<lparr>mmu = \<lparr>mmutype = KGSL_MMU_TYPE_IOMMU, defaultpagetable = 1\<rparr>,
      iommu = \<lparr>setstate = \<lparr>gpuaddr = 0x1000\<rparr>, ctx_user = \<lparr>cb_num = 0\<rparr>\<rparr>,
      memstore_global_current_context = 0x2000,
      ft_mask = {},
      perfcounter = True,
      priv = {}\<rparr>"

definition scenario_rb :: adreno_ringbuffer where
  "scenario_rb =
     \<lparr>rb_device = scenario_dev,
      drawctxt_active = None,
      pagetable_desc = \<lparr>gpuaddr = 0x3000\<rparr>,
      memstore_rb_current_context = 0x2028\<rparr>"

definition scenario_ctx :: adreno_context where
  "scenario_ctx = \<lparr>base = \<lparr>ctxt_id = 7, proc_priv = \<lparr>pagetable = 2\<rparr>\<rparr>\<rparr>"

definition empty_log :: klog where
  "empty_log = \<lparr>submitted = [], warnings = []\<rparr>"

text \<open>Variations: the allocation fails; a page of 64 bytes; no MMU; a device in fault recovery.\<close>

definition nomem_env :: env where
  "nomem_env = scenario_env\<lparr>kmalloc_ok := False\<rparr>"

definition small_page_env :: env where
  "small_page_env = scenario_env\<lparr>PAGE_SIZE := 64\<rparr>"

definition nommu_rb :: adreno_ringbuffer where
  "nommu_rb =
     scenario_rb\<lparr>rb_device :=
       scenario_dev\<lparr>mmu := \<lparr>mmutype = KGSL_MMU_TYPE_NONE, defaultpagetable = 1\<rparr>\<rparr>\<rparr>"

definition fault_rb :: adreno_ringbuffer where
  "fault_rb = scenario_rb\<lparr>rb_device := scenario_dev\<lparr>priv := {ADRENO_DEVICE_FAULT}\<rparr>\<rparr>"

section \<open>Auxiliary facts\<close>

lemma store_words_append:
  "store_words p (xs @ ys) b = store_words (p + length xs) ys (store_words p xs b)"
  by (induction xs arbitrary: p b) simp_all

subsection \<open>Stores into a buffer\<close>

lemma length_store: "length (buf_words (store p w b)) = length (buf_words b)"
  by (simp add: store_def)

lemma length_store_words:
  "length (buf_words (store_words p ws b)) = length (buf_words b)"
  by (induction ws arbitrary: p b) (simp_all add: length_store)

lemma overrun_store_words:
  "overrun (store_words p ws b) =
     (overrun b \<or> (ws \<noteq> [] \<and> length (buf_words b) < p + length ws))"
  by (induction ws arbitrary: p b) (auto simp: store_def)

lemma buf_words_store_words:
  "p + length ws \<le> length (buf_words b) \<Longrightarrow>
   buf_words (store_words p ws b) = take p (buf_words b) @ ws @ drop (p + length ws) (buf_words b)"
proof (induction ws arbitrary: p b)
  case Nil
  then show ?case by simp
next
  case (Cons w ws)
  then show ?case
    by (simp add: store_def upd_conv_take_nth_drop take_Suc_conv_app_nth add.commute)
qed

lemma stream_store_words:
  "p + length ws \<le> length (buf_words b) \<Longrightarrow> stream p (length ws) (store_words p ws b) = ws"
  by (simp add: stream_def buf_words_store_words)

lemma fresh_words_simps:
  "length (buf_words (fresh_words e n)) = n" "overrun (fresh_words e n) = False"
  by (simp_all add: fresh_words_def)

subsection \<open>Each generator stores the word sequence of its specification\<close>

lemma apriv_emit:
  "adreno_iommu_set_apriv e adreno_dev cmds raise b = emit (apriv_words e adreno_dev raise) cmds b"
  by (simp add: adreno_iommu_set_apriv_def apriv_words_def cp_wait_for_idle_def cp_wait_for_me_def
      emit_def store_words_append Let_def add.assoc)

lemma prefetch_stall_emit:
  "adreno_iommu_add_idle_indirect_cmds e adreno_dev cmds nop b =
     emit (prefetch_stall_words e adreno_dev nop) cmds b"
  by (simp add: adreno_iommu_add_idle_indirect_cmds_def prefetch_stall_words_def
      cp_wait_for_idle_def cp_wait_for_me_def cp_gpuaddr_def gpuaddr_words_def
      emit_def store_words_append Let_def add.assoc)

lemma pagetable_switch_emit:
  "adreno_iommu_set_pt_v2_a6xx e device cmds ttbr0 contextidr rb cb b =
     emit (pagetable_switch_words e device ttbr0 contextidr rb cb) cmds b"
  by (simp add: adreno_iommu_set_pt_v2_a6xx_def pagetable_switch_words_def
      adreno_iommu_add_idle_cmds_def ADRENO_DEVICE_def
      cp_wait_for_idle_def cp_wait_for_me_def cp_gpuaddr_def gpuaddr_words_def
      emit_def store_words_append Let_def add.assoc)

lemma switch_sequence_emit:
  "adreno_iommu_set_pt_generate_cmds e rb cmds pt b = emit (switch_sequence_words e rb pt) cmds b"
  by (simp add: adreno_iommu_set_pt_generate_cmds_def switch_sequence_words_def
      apriv_emit prefetch_stall_emit pagetable_switch_emit cp_invalidate_state_def
      ADRENO_RB_DEVICE_def KGSL_DEVICE_def KGSL_IOMMU_PRIV_def
      emit_def store_words_append Let_def add.assoc)

lemma context_record_emit:
  "add_curr_ctxt_cmds e rb cmds drawctxt b =
     emit (context_record_words e rb (recorded_id drawctxt)) cmds b"
  by (simp add: add_curr_ctxt_cmds_def context_record_words_def recorded_id_def
      cp_identifier_def cp_gpuaddr_def gpuaddr_words_def
      ADRENO_RB_DEVICE_def KGSL_DEVICE_def
      emit_def store_words_append Let_def add.assoc)

subsection \<open>The submission functions, case by case\<close>

lemma set_ctxt_gpu_submit:
  "set_ctxt_gpu e rb drawctxt k = submit e rb (context_record_submission e rb drawctxt) k"
  by (simp add: set_ctxt_gpu_def context_record_emit emit_def submit_def
      adreno_ringbuffer_issue_internal_cmds_def context_record_submission_def Let_def)

lemma set_pagetable_gpu_cases:
  "set_pagetable_gpu e rb new_pt k =
     (if \<not> kmalloc_ok e then (- ENOMEM, k)
      else if ADRENO_DEVICE_FAULT \<in> priv (rb_device rb) then (0, k)
      else submit e rb (switch_submission e rb new_pt)
             (WARN (PAGE_SIZE e div sizeof_unsigned_int < length (switch_sequence_words e rb new_pt))
                ''Temp command buffer overflow'' k))"
  by (simp add: set_pagetable_gpu_def kmalloc_def test_bit_def ADRENO_RB_DEVICE_def
      switch_sequence_emit emit_def submit_def switch_submission_def
      adreno_ringbuffer_issue_internal_cmds_def Let_def)

lemma set_pt_ctx_cases:
  "adreno_iommu_set_pt_ctx e rb new_pt drawctxt k =
     (if fst (pagetable_step e rb new_pt k) \<noteq> 0 then pagetable_step e rb new_pt k
      else set_ctxt_gpu e rb drawctxt (snd (pagetable_step e rb new_pt k)))"
  by (simp add: adreno_iommu_set_pt_ctx_def pagetable_step_def active_pagetable_def
      ADRENO_RB_DEVICE_def KGSL_DEVICE_def Let_def split_def split: option.split)

section \<open>Properties of the specification\<close>

subsection \<open>The privilege toggler\<close>

text \<open>
  C7: \<^verbatim>\<open>adreno_iommu_set_apriv\<close> returns 0 and stores nothing when the device has the
  feature \<^verbatim>\<open>ADRENO_APRIV\<close>. Otherwise, for raise and for lower alike, it stores the
  wait-for-idle words, the wait-for-me words, the register-write header for the CP
  control register and the value 1 (raise) or 0 (lower); raise and lower return the same
  count on a device.
\<close>

theorem set_apriv_words:
  "adreno_iommu_set_apriv e adreno_dev cmds raise b =
     (if ADRENO_FEATURE adreno_dev ADRENO_APRIV then (0, b)
      else emit (wait_for_idle_words e adreno_dev @ wait_for_me_words e adreno_dev @
                 [cp_register e adreno_dev (adreno_getreg e adreno_dev ADRENO_REG_CP_CNTL) 1,
                  if raise then 1 else 0]) cmds b)
   \<and> fst (adreno_iommu_set_apriv e adreno_dev cmds True b) =
     fst (adreno_iommu_set_apriv e adreno_dev cmds' False b')"
  by (simp add: apriv_emit apriv_words_def emit_def)

subsection \<open>The switch sequence\<close>

text \<open>
  C1: the words stored by \<^verbatim>\<open>adreno_iommu_set_pt_generate_cmds\<close> are, in this order, the
  privilege-raise words, the prefetch-stall words, the pagetable-switch words, the words
  of the base-pointer invalidate and the privilege-lower words, where each part is what
  the generator of that part stores on its own. The raise part is empty exactly when the
  lower part is, and both have the same length.
\<close>

theorem switch_sequence_order:
  "let adreno_dev = rb_device rb;
       nop_gpuaddr = gpuaddr (setstate (iommu adreno_dev)) + KGSL_IOMMU_SETSTATE_NOP_OFFSET e;
       ttbr0 = kgsl_mmu_pagetable_get_ttbr0 e pt;
       contextidr = kgsl_mmu_pagetable_get_contextidr e pt;
       cb = cb_num (ctx_user (iommu adreno_dev));
       raise_words = apriv_words e adreno_dev True;
       stall_words = prefetch_stall_words e adreno_dev nop_gpuaddr;
       switch_words = pagetable_switch_words e adreno_dev ttbr0 contextidr rb cb;
       invalidate_words = invalidate_state_words e adreno_dev;
       lower_words = apriv_words e adreno_dev False
   in adreno_iommu_set_pt_generate_cmds e rb cmds pt b =
        emit (raise_words @ stall_words @ switch_words @ invalidate_words @ lower_words) cmds b
      \<and> adreno_iommu_set_apriv e adreno_dev c True b1 = emit raise_words c b1
      \<and> adreno_iommu_add_idle_indirect_cmds e adreno_dev c nop_gpuaddr b1 = emit stall_words c b1
      \<and> adreno_iommu_set_pt_v2_a6xx e adreno_dev c ttbr0 contextidr rb cb b1 = emit switch_words c b1
      \<and> cp_invalidate_state e adreno_dev c b1 = emit invalidate_words c b1
      \<and> adreno_iommu_set_apriv e adreno_dev c False b1 = emit lower_words c b1
      \<and> (raise_words = [] \<longleftrightarrow> lower_words = [])
      \<and> length raise_words = length lower_words"
proof -
  have "apriv_words e (rb_device rb) True = [] \<longleftrightarrow> apriv_words e (rb_device rb) False = []"
    by (simp add: apriv_words_def)
  moreover have "length (apriv_words e (rb_device rb) True) = length (apriv_words e (rb_device rb) False)"
    by (simp add: apriv_words_def)
  moreover have "adreno_iommu_set_pt_generate_cmds e rb cmds pt b =
      emit (switch_sequence_words e rb pt) cmds b"
    by (rule switch_sequence_emit)
  ultimately show ?thesis
    unfolding Let_def switch_sequence_words_def
    by (simp only: apriv_emit prefetch_stall_emit pagetable_switch_emit cp_invalidate_state_def
        simp_thms)
qed

text \<open>
  C4: \<^verbatim>\<open>_adreno_iommu_set_pt_v2_a6xx\<close> stores, in order: idle-wait, wait-for-me, with
  performance counters inactive the register write of 1 to the SRAM-init command
  register, the SMMU table update with its four payload words (low and high half of
  ttbr0, contextidr, context bank), the memory write of the two ttbr0 halves and
  contextidr to the pagetable-info location of the ring buffer, wait-for-me, idle-wait,
  and with performance counters inactive the wait on the SRAM-init status register for
  the value 1. It returns the number of words and has no other outcome.
\<close>

theorem set_pt_v2_a6xx_words:
  "adreno_iommu_set_pt_v2_a6xx e device cmds ttbr0 contextidr rb cb b =
     emit (wait_for_idle_words e device @ wait_for_me_words e device @
           (if \<not> perfcounter device
            then [cp_type4_packet e (A6XX_RBBM_PERFCTR_SRAM_INIT_CMD e) 1, 1] else []) @
           [cp_packet e device CP_SMMU_TABLE_UPDATE 4,
            lower_32_bits ttbr0, upper_32_bits ttbr0, contextidr, cb] @
           [cp_mem_packet e device CP_MEM_WRITE 4 1,
            lower_32_bits (gpuaddr (pagetable_desc rb) + PT_INFO_OFFSET_ttbr0 e),
            upper_32_bits (gpuaddr (pagetable_desc rb) + PT_INFO_OFFSET_ttbr0 e),
            lower_32_bits ttbr0, upper_32_bits ttbr0, contextidr] @
           wait_for_me_words e device @ wait_for_idle_words e device @
           (if \<not> perfcounter device
            then [cp_type7_packet e CP_WAIT_REG_MEM 6, 3,
                  A6XX_RBBM_PERFCTR_SRAM_INIT_STATUS e, 0, 1, 1, 0] else []))
       cmds b"
  by (simp add: pagetable_switch_emit pagetable_switch_words_def gpuaddr_words_def)

subsection \<open>The context record\<close>

text \<open>
  C8: \<^verbatim>\<open>__add_curr_ctxt_cmds\<close> stores the identifier command, a memory write to the
  ring buffer's current-context location, a memory write to the global one and the cache
  invalidate event. Both memory writes carry 0 for a null context and the context's
  identifier otherwise.
\<close>

theorem curr_ctxt_words:
  "add_curr_ctxt_cmds e rb cmds drawctxt b =
     emit (identifier_words e (rb_device rb) (CONTEXT_TO_MEM_IDENTIFIER e) @
           [cp_mem_packet e (rb_device rb) CP_MEM_WRITE 2 1,
            lower_32_bits (memstore_rb_current_context rb),
            upper_32_bits (memstore_rb_current_context rb),
            (case drawctxt of None \<Rightarrow> 0 | Some c \<Rightarrow> ctxt_id (base c)),
            cp_mem_packet e (rb_device rb) CP_MEM_WRITE 2 1,
            lower_32_bits (memstore_global_current_context (rb_device rb)),
            upper_32_bits (memstore_global_current_context (rb_device rb)),
            (case drawctxt of None \<Rightarrow> 0 | Some c \<Rightarrow> ctxt_id (base c)),
            cp_packet e (rb_device rb) CP_EVENT_WRITE 1,
            0x31])
       cmds b"
  by (simp add: context_record_emit context_record_words_def gpuaddr_words_def recorded_id_def)

text \<open>
  The context record has ten words besides those of the identifier command of
  \<^verbatim>\<open>cp_identifier\<close>, for a present and for an absent context. Built in the 15-word
  array of \<^verbatim>\<open>_set_ctxt_gpu\<close>, it is stored past the end of the array exactly when the
  identifier command has more than five words; the count handed to the transport is
  the number of words of the record in either case.
\<close>

theorem context_record_count:
  "let r = add_curr_ctxt_cmds e rb 0 drawctxt (fresh_words e 15);
       n = length (identifier_words e (rb_device rb) (CONTEXT_TO_MEM_IDENTIFIER e))
   in fst r = n + 10 \<and> (overrun (snd r) \<longleftrightarrow> 5 < n)
      \<and> set_ctxt_gpu e rb drawctxt k =
          (issue_result e k rb \<lparr>sub_flags = 0, sub_link = snd r, sub_count = n + 10\<rparr>,
           k\<lparr>submitted := submitted k @
                [\<lparr>sub_flags = 0, sub_link = snd r, sub_count = n + 10\<rparr>]\<rparr>)"
proof -
  let ?ws = "context_record_words e rb (recorded_id drawctxt)"
  have len: "length ?ws =
      length (identifier_words e (rb_device rb) (CONTEXT_TO_MEM_IDENTIFIER e)) + 10"
    by (simp add: context_record_words_def gpuaddr_words_def)
  have "overrun (store_words 0 ?ws (fresh_words e 15)) \<longleftrightarrow>
      5 < length (identifier_words e (rb_device rb) (CONTEXT_TO_MEM_IDENTIFIER e))"
    using len by (auto simp add: overrun_store_words fresh_words_simps)
  then show ?thesis
    using len
    by (simp add: Let_def context_record_emit emit_def set_ctxt_gpu_submit submit_def
        context_record_submission_def)
qed

text \<open>
  When the identifier command has at most five words, the 15-word array holds exactly
  the words of the record after the call, and no store went past its end.
\<close>

theorem context_record_fits:
  assumes "length (identifier_words e (rb_device rb) (CONTEXT_TO_MEM_IDENTIFIER e)) \<le> 5"
  shows "let r = add_curr_ctxt_cmds e rb 0 drawctxt (fresh_words e 15);
             ws = context_record_words e rb (recorded_id drawctxt)
         in fst r = length ws \<and> length ws \<le> 15 \<and> \<not> overrun (snd r)
            \<and> stream 0 (fst r) (snd r) = ws
            \<and> set_ctxt_gpu e rb drawctxt k =
                (issue_result e k rb \<lparr>sub_flags = 0, sub_link = snd r, sub_count = fst r\<rparr>,
                 k\<lparr>submitted := submitted k @
                      [\<lparr>sub_flags = 0, sub_link = snd r, sub_count = fst r\<rparr>]\<rparr>)"
proof -
  let ?ws = "context_record_words e rb (recorded_id drawctxt)"
  have len: "length ?ws \<le> 15"
    using assms by (simp add: context_record_words_def gpuaddr_words_def)
  have fits: "0 + length ?ws \<le> length (buf_words (fresh_words e 15))"
    using len by (simp add: fresh_words_simps)
  have "\<not> overrun (store_words 0 ?ws (fresh_words e 15))"
    using len by (simp add: overrun_store_words fresh_words_simps)
  moreover have "stream 0 (length ?ws) (store_words 0 ?ws (fresh_words e 15)) = ?ws"
    using fits by (rule stream_store_words)
  ultimately show ?thesis
    using len
    by (simp add: Let_def context_record_emit emit_def set_ctxt_gpu_submit submit_def
        context_record_submission_def)
qed

theorem context_record_fits_witness:
  "length (identifier_words scenario_env (rb_device scenario_rb)
      (CONTEXT_TO_MEM_IDENTIFIER scenario_env)) \<le> 5 \<and>
   (let r = add_curr_ctxt_cmds scenario_env scenario_rb 0 (Some scenario_ctx)
              (fresh_words scenario_env 15);
        ws = context_record_words scenario_env scenario_rb (recorded_id (Some scenario_ctx))
    in fst r = length ws \<and> length ws \<le> 15 \<and> \<not> overrun (snd r)
       \<and> stream 0 (fst r) (snd r) = ws
       \<and> set_ctxt_gpu scenario_env scenario_rb (Some scenario_ctx) empty_log =
           (issue_result scenario_env empty_log scenario_rb
              \<lparr>sub_flags = 0, sub_link = snd r, sub_count = fst r\<rparr>,
            empty_log\<lparr>submitted := submitted empty_log @
                 [\<lparr>sub_flags = 0, sub_link = snd r, sub_count = fst r\<rparr>]\<rparr>))"
proof -
  have h: "length (identifier_words scenario_env (rb_device scenario_rb)
      (CONTEXT_TO_MEM_IDENTIFIER scenario_env)) \<le> 5"
    by (simp add: scenario_env_def)
  from context_record_fits [OF h, of "Some scenario_ctx" empty_log] h show ?thesis
    by (intro conjI)
qed

subsection \<open>The entry point\<close>

text \<open>
  C2: a request for the pagetable that is already active for the ring buffer (that of
  its active draw context, the default one when it has none) submits exactly one command
  set, the context record, and with it no word of a pagetable switch. Read the other way
  round: whenever a request submits a switch sequence, the requested pagetable differs
  from the active one.
\<close>

theorem same_pagetable_only_context_record:
  assumes "new_pt = active_pagetable rb"
  shows "let cs = context_record_submission e rb drawctxt
         in adreno_iommu_set_pt_ctx e rb new_pt drawctxt k =
              (issue_result e k rb cs, k\<lparr>submitted := submitted k @ [cs]\<rparr>)"
  using assms
  by (simp add: set_pt_ctx_cases pagetable_step_def set_ctxt_gpu_submit submit_def Let_def)

theorem same_pagetable_only_context_record_witness:
  "1 = active_pagetable scenario_rb \<and>
   (let cs = context_record_submission scenario_env scenario_rb (Some scenario_ctx)
    in adreno_iommu_set_pt_ctx scenario_env scenario_rb 1 (Some scenario_ctx) empty_log =
         (issue_result scenario_env empty_log scenario_rb cs,
          empty_log\<lparr>submitted := submitted empty_log @ [cs]\<rparr>))"
proof -
  have h: "1 = active_pagetable scenario_rb"
    by (simp add: active_pagetable_def scenario_rb_def scenario_dev_def)
  from same_pagetable_only_context_record [OF h, of scenario_env "Some scenario_ctx" empty_log] h
  show ?thesis by (intro conjI)
qed

text \<open>
  C9: with MMU type \<^verbatim>\<open>KGSL_MMU_TYPE_NONE\<close> the entry point does what \<^verbatim>\<open>_set_ctxt_gpu\<close>
  does, whatever the requested pagetable and the state of the ring buffer: it submits the
  context record alone and returns the result of that submission.
\<close>

theorem no_mmu_only_context_record:
  assumes "kgsl_mmu_get_mmutype (rb_device rb) = KGSL_MMU_TYPE_NONE"
  shows "let cs = context_record_submission e rb drawctxt
         in adreno_iommu_set_pt_ctx e rb new_pt drawctxt k =
              (issue_result e k rb cs, k\<lparr>submitted := submitted k @ [cs]\<rparr>)
            \<and> adreno_iommu_set_pt_ctx e rb new_pt drawctxt k = set_ctxt_gpu e rb drawctxt k"
  using assms
  by (simp add: set_pt_ctx_cases pagetable_step_def set_ctxt_gpu_submit submit_def Let_def)

theorem no_mmu_only_context_record_witness:
  "kgsl_mmu_get_mmutype (rb_device nommu_rb) = KGSL_MMU_TYPE_NONE \<and>
   (let cs = context_record_submission scenario_env nommu_rb (Some scenario_ctx)
    in adreno_iommu_set_pt_ctx scenario_env nommu_rb 2 (Some scenario_ctx) empty_log =
         (issue_result scenario_env empty_log nommu_rb cs,
          empty_log\<lparr>submitted := submitted empty_log @ [cs]\<rparr>)
       \<and> adreno_iommu_set_pt_ctx scenario_env nommu_rb 2 (Some scenario_ctx) empty_log =
           set_ctxt_gpu scenario_env nommu_rb (Some scenario_ctx) empty_log)"
proof -
  have h: "kgsl_mmu_get_mmutype (rb_device nommu_rb) = KGSL_MMU_TYPE_NONE"
    by (simp add: kgsl_mmu_get_mmutype_def nommu_rb_def scenario_rb_def scenario_dev_def)
  from no_mmu_only_context_record [OF h, of scenario_env "Some scenario_ctx" 2 empty_log] h
  show ?thesis by (intro conjI)
qed

text \<open>
  C6: when the allocation succeeds, the device is not in fault recovery and the count of
  the generated switch sequence exceeds the words of one page, \<^verbatim>\<open>_set_pagetable_gpu\<close>
  logs the warning and still hands the buffer, which was written past its end, with the
  full count to the transport; what it returns is the transport's result.
\<close>

theorem overflow_still_submitted:
  assumes "kmalloc_ok e" and "ADRENO_DEVICE_FAULT \<notin> priv (rb_device rb)"
    and "PAGE_SIZE e div sizeof_unsigned_int <
           fst (adreno_iommu_set_pt_generate_cmds e rb 0 new_pt
                  (fresh_words e (PAGE_SIZE e div sizeof_unsigned_int)))"
  shows "let r = adreno_iommu_set_pt_generate_cmds e rb 0 new_pt
                   (fresh_words e (PAGE_SIZE e div sizeof_unsigned_int));
             s = \<lparr>sub_flags = KGSL_CMD_FLAGS_PMODE e, sub_link = snd r, sub_count = fst r\<rparr>;
             k' = k\<lparr>warnings := warnings k @ [''Temp command buffer overflow'']\<rparr>
         in set_pagetable_gpu e rb new_pt k =
              (issue_result e k' rb s, k'\<lparr>submitted := submitted k @ [s]\<rparr>)
            \<and> overrun (snd r)"
proof -
  let ?ws = "switch_sequence_words e rb new_pt"
  have big: "PAGE_SIZE e div sizeof_unsigned_int < length ?ws"
    using assms(3) by (simp add: switch_sequence_emit emit_def)
  then have "overrun (store_words 0 ?ws (fresh_words e (PAGE_SIZE e div sizeof_unsigned_int)))"
    by (auto simp add: overrun_store_words fresh_words_simps)
  then show ?thesis
    using assms(1,2) big
    by (simp add: Let_def set_pagetable_gpu_cases switch_sequence_emit emit_def submit_def
        switch_submission_def WARN_def)
qed

text \<open>In the scenario the switch sequence has 30 words, more than the 16 of a 64-byte page.\<close>

lemma scenario_switch_length:
  "length (switch_sequence_words small_page_env scenario_rb 2) = 30"
  by (simp add: switch_sequence_words_def apriv_words_def prefetch_stall_words_def
      pagetable_switch_words_def gpuaddr_words_def ADRENO_FEATURE_def
      small_page_env_def scenario_env_def scenario_rb_def scenario_dev_def)

theorem overflow_still_submitted_witness:
  "kmalloc_ok small_page_env \<and> ADRENO_DEVICE_FAULT \<notin> priv (rb_device scenario_rb) \<and>
   PAGE_SIZE small_page_env div sizeof_unsigned_int <
     fst (adreno_iommu_set_pt_generate_cmds small_page_env scenario_rb 0 2
            (fresh_words small_page_env (PAGE_SIZE small_page_env div sizeof_unsigned_int))) \<and>
   (let r = adreno_iommu_set_pt_generate_cmds small_page_env scenario_rb 0 2
              (fresh_words small_page_env (PAGE_SIZE small_page_env div sizeof_unsigned_int));
        s = \<lparr>sub_flags = KGSL_CMD_FLAGS_PMODE small_page_env, sub_link = snd r,
             sub_count = fst r\<rparr>;
        k' = empty_log\<lparr>warnings := warnings empty_log @ [''Temp command buffer overflow'']\<rparr>
    in set_pagetable_gpu small_page_env scenario_rb 2 empty_log =
         (issue_result small_page_env k' scenario_rb s,
          k'\<lparr>submitted := submitted empty_log @ [s]\<rparr>)
       \<and> overrun (snd r))"
proof -
  have h1: "kmalloc_ok small_page_env"
    by (simp add: small_page_env_def scenario_env_def)
  have h2: "ADRENO_DEVICE_FAULT \<notin> priv (rb_device scenario_rb)"
    by (simp add: scenario_rb_def scenario_dev_def)
  have h3: "PAGE_SIZE small_page_env div sizeof_unsigned_int <
     fst (adreno_iommu_set_pt_generate_cmds small_page_env scenario_rb 0 2
            (fresh_words small_page_env (PAGE_SIZE small_page_env div sizeof_unsigned_int)))"
    by (simp add: switch_sequence_emit emit_def scenario_switch_length)
      (simp add: small_page_env_def scenario_env_def sizeof_unsigned_int_def)
  from overflow_still_submitted [OF h1 h2 h3, of empty_log] h1 h2 h3
  show ?thesis by (intro conjI)
qed

text \<open>
  C3, amended: when the pagetable step of a request is not taken or returns 0, the entry
  point submits the context record after it and returns the result of that submission,
  whether or not the pagetable changed.
\<close>

theorem context_record_after_pagetable_step:
  assumes "fst (pagetable_step e rb new_pt k) = 0"
  shows "let k1 = snd (pagetable_step e rb new_pt k);
             cs = context_record_submission e rb drawctxt
         in adreno_iommu_set_pt_ctx e rb new_pt drawctxt k =
              (issue_result e k1 rb cs, k1\<lparr>submitted := submitted k1 @ [cs]\<rparr>)"
  using assms
  by (simp add: set_pt_ctx_cases set_ctxt_gpu_submit submit_def Let_def)

theorem context_record_after_pagetable_step_witness:
  "fst (pagetable_step scenario_env scenario_rb 2 empty_log) = 0 \<and>
   (let k1 = snd (pagetable_step scenario_env scenario_rb 2 empty_log);
        cs = context_record_submission scenario_env scenario_rb (Some scenario_ctx)
    in adreno_iommu_set_pt_ctx scenario_env scenario_rb 2 (Some scenario_ctx) empty_log =
         (issue_result scenario_env k1 scenario_rb cs,
          k1\<lparr>submitted := submitted k1 @ [cs]\<rparr>))"
proof -
  have h: "fst (pagetable_step scenario_env scenario_rb 2 empty_log) = 0"
    by (simp add: pagetable_step_def set_pagetable_gpu_cases submit_def active_pagetable_def
        kgsl_mmu_get_mmutype_def scenario_env_def scenario_rb_def scenario_dev_def)
  from context_record_after_pagetable_step [OF h, of "Some scenario_ctx"] h
  show ?thesis by (intro conjI)
qed

text \<open>
  C3, counterexample: when the allocation for the pagetable switch fails, the request
  returns \<open>-ENOMEM\<close> and submits nothing, so no context record either.
\<close>

theorem failed_switch_no_context_record:
  "adreno_iommu_set_pt_ctx nomem_env scenario_rb 2 (Some scenario_ctx) empty_log =
     (- 12, empty_log)
   \<and> submitted (snd (adreno_iommu_set_pt_ctx nomem_env scenario_rb 2 (Some scenario_ctx)
        empty_log)) = []"
  by (simp add: set_pt_ctx_cases pagetable_step_def set_pagetable_gpu_cases
      active_pagetable_def kgsl_mmu_get_mmutype_def ENOMEM_def
      nomem_env_def scenario_env_def scenario_rb_def scenario_dev_def empty_log_def)

text \<open>
  C5, amended: in fault recovery, when the allocation succeeds, \<^verbatim>\<open>_set_pagetable_gpu\<close>
  returns 0, generates no words and submits nothing; the entry point then still submits
  the context record and returns the result of that submission.
\<close>

theorem fault_skips_pagetable_switch:
  assumes "ADRENO_DEVICE_FAULT \<in> priv (rb_device rb)" and "kmalloc_ok e"
  shows "let cs = context_record_submission e rb drawctxt
         in set_pagetable_gpu e rb new_pt k = (0, k)
            \<and> adreno_iommu_set_pt_ctx e rb new_pt drawctxt k =
                (issue_result e k rb cs, k\<lparr>submitted := submitted k @ [cs]\<rparr>)"
  using assms
  by (simp add: set_pt_ctx_cases pagetable_step_def set_pagetable_gpu_cases
      set_ctxt_gpu_submit submit_def Let_def)

theorem fault_skips_pagetable_switch_witness:
  "ADRENO_DEVICE_FAULT \<in> priv (rb_device fault_rb) \<and> kmalloc_ok scenario_env \<and>
   (let cs = context_record_submission scenario_env fault_rb (Some scenario_ctx)
    in set_pagetable_gpu scenario_env fault_rb 2 empty_log = (0, empty_log)
       \<and> adreno_iommu_set_pt_ctx scenario_env fault_rb 2 (Some scenario_ctx) empty_log =
           (issue_result scenario_env empty_log fault_rb cs,
            empty_log\<lparr>submitted := submitted empty_log @ [cs]\<rparr>))"
proof -
  have h1: "ADRENO_DEVICE_FAULT \<in> priv (rb_device fault_rb)"
    by (simp add: fault_rb_def scenario_rb_def scenario_dev_def)
  have h2: "kmalloc_ok scenario_env"
    by (simp add: scenario_env_def)
  from fault_skips_pagetable_switch [OF h1 h2, of "Some scenario_ctx" 2 empty_log] h1 h2
  show ?thesis by (intro conjI)
qed

text \<open>
  C5, counterexample: in fault recovery a failed allocation makes
  \<^verbatim>\<open>_set_pagetable_gpu\<close> and the entry point return \<open>-ENOMEM\<close>; and when the
  allocation succeeds, the entry point submits one command set of 11 words, the context
  record.
\<close>

theorem fault_request_not_silent:
  "set_pagetable_gpu nomem_env fault_rb 2 empty_log = (- 12, empty_log)
   \<and> fst (adreno_iommu_set_pt_ctx nomem_env fault_rb 2 (Some scenario_ctx) empty_log) = - 12
   \<and> map sub_count (submitted (snd (adreno_iommu_set_pt_ctx scenario_env fault_rb 2
        (Some scenario_ctx) empty_log))) = [11]"
  by (simp add: set_pt_ctx_cases pagetable_step_def set_pagetable_gpu_cases
      set_ctxt_gpu_submit submit_def context_record_submission_def context_record_words_def
      gpuaddr_words_def
      active_pagetable_def kgsl_mmu_get_mmutype_def ENOMEM_def
      nomem_env_def scenario_env_def scenario_rb_def scenario_dev_def empty_log_def fault_rb_def)

subsection \<open>The scenario, evaluated\<close>

text \<open>
  In the scenario the switch sequence for pagetable 2 is 30 words: 4 of the raise, 6 of
  the prefetch stall, 15 of the pagetable switch (no performance-counter words), 1 of the
  invalidate and 4 of the lower.
\<close>

theorem scenario_switch_sequence:
  "adreno_iommu_set_pt_generate_cmds scenario_env scenario_rb 0 2 b =
     emit ([0x26, 0x13, 0x800, 1] @
           [0x13, 0x3f, 0x1400, 0, 2, 0x26] @
           [0x26, 0x13, 0x53, 2, 0, 2, 0, 0x3d, 0x3000, 0, 2, 0, 2, 0x13, 0x26] @
           [0x3b] @
           [0x26, 0x13, 0x800, 0]) 0 b"
  by (simp add: switch_sequence_emit switch_sequence_words_def apriv_words_def
      prefetch_stall_words_def pagetable_switch_words_def gpuaddr_words_def ADRENO_FEATURE_def
      lower_32_bits_def upper_32_bits_def opcode_number_def
      scenario_env_def scenario_rb_def scenario_dev_def)

text \<open>
  In the scenario the context record for context 7 is 11 words: the identifier, two
  memory writes of 7 and the cache invalidate event.
\<close>

theorem scenario_context_record:
  "add_curr_ctxt_cmds scenario_env scenario_rb 0 (Some scenario_ctx) b =
     emit [0x2eadbeef, 0x3d, 0x2028, 0, 7, 0x3d, 0x2000, 0, 7, 0x46, 0x31] 0 b"
  by (simp add: context_record_emit context_record_words_def recorded_id_def gpuaddr_words_def
      lower_32_bits_def upper_32_bits_def opcode_number_def
      scenario_env_def scenario_rb_def scenario_dev_def scenario_ctx_def)

text \<open>
  In the scenario a request for pagetable 2 and context 7 returns 0 after two
  submissions, the switch sequence first and the context record second, and logs no
  warning.
\<close>

theorem scenario_request:
  "adreno_iommu_set_pt_ctx scenario_env scenario_rb 2 (Some scenario_ctx) empty_log =
     (0, \<lparr>submitted = [switch_submission scenario_env scenario_rb 2,
                       context_record_submission scenario_env scenario_rb (Some scenario_ctx)],
          warnings = []\<rparr>)"
proof -
  have len: "length (switch_sequence_words scenario_env scenario_rb 2) = 30"
    by (simp add: switch_sequence_words_def apriv_words_def prefetch_stall_words_def
        pagetable_switch_words_def gpuaddr_words_def ADRENO_FEATURE_def
        scenario_env_def scenario_rb_def scenario_dev_def)
  have env: "kmalloc_ok scenario_env" "PAGE_SIZE scenario_env = 4096"
    "issue_result scenario_env = (\<lambda>_ _ _. 0)"
    by (simp_all add: scenario_env_def)
  have rb: "priv (rb_device scenario_rb) = {}" "active_pagetable scenario_rb = 1"
    "kgsl_mmu_get_mmutype (rb_device scenario_rb) = KGSL_MMU_TYPE_IOMMU"
    by (simp_all add: active_pagetable_def kgsl_mmu_get_mmutype_def scenario_rb_def
        scenario_dev_def)
  show ?thesis
    by (simp add: set_pt_ctx_cases pagetable_step_def set_pagetable_gpu_cases
        set_ctxt_gpu_submit submit_def WARN_def sizeof_unsigned_int_def len env rb
        empty_log_def)
qed

text \<open>
  When the allocation fails, \<^verbatim>\<open>_set_pagetable_gpu\<close> returns \<open>-ENOMEM\<close> and neither
  submits nor logs anything.
\<close>

theorem allocation_failure:
  assumes "\<not> kmalloc_ok e"
  shows "set_pagetable_gpu e rb new_pt k = (- ENOMEM, k)"
  using assms by (simp add: set_pagetable_gpu_cases)

theorem allocation_failure_witness:
  "\<not> kmalloc_ok nomem_env \<and> set_pagetable_gpu nomem_env scenario_rb 2 empty_log = (- ENOMEM, empty_log)"
proof -
  have h: "\<not> kmalloc_ok nomem_env"
    by (simp add: nomem_env_def scenario_env_def)
  from allocation_failure [OF h, of scenario_rb 2 empty_log] h
  show ?thesis by (intro conjI)
qed

end
